theory Spec2Isabelle
  imports Complex_Main
begin

section \<open>STLSlicer: slicing a mesh into layers and exporting them\<close>

text \<open>
  A shallow embedding of \<^verbatim>\<open>stlslicer.py\<close>, of the older copy of the same class in
  \<^verbatim>\<open>main.py\<close>, and of \<^verbatim>\<open>util.py\<close>.

  Numbers: the heights, bounds and the pitch are Python and numpy floats. They are
  modelled as \<^typ>\<open>real\<close>, so every statement below is about exact arithmetic;
  rounding of the floating point operations is outside the model.

  Exceptions are values: a function that can raise returns \<open>error + 'a\<close>, with
  \<open>Inl\<close> the exception.
\<close>

subsection \<open>Python values and exceptions\<close>

datatype error = AttributeError | IndexError | OverflowError | ValueError | TypeError | OSError

text \<open>
  What reading an attribute of the mesh object yields when the code uses it as a
  condition: a bound method (the attribute is a method that the code does not call), or
  a boolean (the attribute is a property).  Every bound method is truthy.
\<close>

datatype py_attr = BoundMethod | AttrBool bool

fun truthy :: "py_attr \<Rightarrow> bool" where
  "truthy BoundMethod = True"
| "truthy (AttrBool b) = b"

subsection \<open>The mesh and the slicer session\<close>

type_synonym vec3 = "real \<times> real \<times> real"

definition xc :: "vec3 \<Rightarrow> real" where
  "xc v = fst v"

definition yc :: "vec3 \<Rightarrow> real" where
  "yc v = fst (snd v)"

definition zc :: "vec3 \<Rightarrow> real" where
  "zc v = snd (snd v)"

text \<open>
  The mesh is an object of the trimesh library, which is not part of the repository.
  The record holds what the code reads from it: \<open>bounds\<close> is
  \<open>((x_min, y_min, z_min), (x_max, y_max, z_max))\<close>; \<open>section_multiplane\<close> takes the
  plane origin, the plane normal and the heights and returns a list of cross-sections,
  \<open>None\<close> where a plane misses the mesh.  \<open>'p\<close> is the type of a Path2D.
\<close>

record 'p mesh =
  bounds :: "vec3 \<times> vec3"
  centroid :: vec3
  units :: string
  is_watertight :: bool
  fix_normals :: py_attr
  fill_holes :: py_attr
  section_multiplane :: "real list \<Rightarrow> real list \<Rightarrow> real list \<Rightarrow> 'p option list"

text \<open>
  A Python dict keeps insertion order; assigning to a key that is present replaces its
  value in place.
\<close>

fun dict_set :: "('k \<times> 'v) list \<Rightarrow> 'k \<Rightarrow> 'v \<Rightarrow> ('k \<times> 'v) list" where
  "dict_set [] k v = [(k, v)]"
| "dict_set ((k', v') # kvs) k v =
     (if k' = k then (k, v) # kvs else (k', v') # dict_set kvs k v)"

type_synonym 'p layer_dict = "(real \<times> 'p option) list"

text \<open>
  The attributes of \<^verbatim>\<open>STLSlicer\<close>.  \<open>distance = None\<close> is an attribute that was never
  assigned (\<^verbatim>\<open>stlslicer.py\<close> only annotates it); \<open>mesh = None\<close> is Python's
  \<^verbatim>\<open>None\<close>, the value before a mesh is loaded.
\<close>

record 'p slicer =
  layers :: "'p layer_dict"
  distance :: "real option"
  full_filename :: string
  filename :: string
  mesh :: "'p mesh option"
  mesh_watertight :: bool

text \<open>\<^verbatim>\<open>STLSlicer.__init__\<close> of \<^verbatim>\<open>stlslicer.py\<close>.\<close>

definition init :: "'p slicer" where
  "init = \<lparr>layers = [], distance = None, full_filename = [], filename = [],
           mesh = None, mesh_watertight = False\<rparr>"

text \<open>
  \<^verbatim>\<open>STLSlicer.__init__\<close> of \<^verbatim>\<open>main.py\<close> without a file: it assigns \<open>distance = 1\<close>
  and leaves the other attributes unset.
\<close>

definition main_init :: "'p slicer" where
  "main_init = \<lparr>layers = [], distance = Some 1, full_filename = [], filename = [],
                mesh = None, mesh_watertight = False\<rparr>"

subsection \<open>Watertightness repair\<close>

text \<open>
  \<^verbatim>\<open>repair_mesh_watertight\<close> of \<^verbatim>\<open>stlslicer.py\<close>.  The conditions read the attributes
  \<^verbatim>\<open>mesh.fix_normals\<close> and \<^verbatim>\<open>mesh.fill_holes\<close>; they are not calls.
\<close>

definition repair_mesh_watertight :: "'p mesh \<Rightarrow> bool" where
  "repair_mesh_watertight m =
     (if \<not> is_watertight m then
        (if \<not> truthy (fix_normals m) then
           (if \<not> truthy (fill_holes m) then False else True)
         else True)
      else True)"

text \<open>
  \<^verbatim>\<open>load_mesh\<close> of \<^verbatim>\<open>stlslicer.py\<close>.  \<open>stem\<close> is \<^verbatim>\<open>os.path.splitext(f)[0]\<close> and
  \<open>loaded\<close> is the outcome of \<^verbatim>\<open>trimesh.load\<close>: an exception is raised again (the
  second component of the result), after both file names have been stored.  On success
  the units are set to mm, and the flag is set only when the repair reports success.
\<close>

definition load_mesh ::
  "'p slicer \<Rightarrow> string \<Rightarrow> string \<Rightarrow> error + 'p mesh \<Rightarrow> 'p slicer \<times> error option" where
  "load_mesh s f stem loaded =
     (let s1 = s\<lparr>full_filename := f, filename := stem\<rparr>
      in case loaded of
           Inl e \<Rightarrow> (s1, Some e)
         | Inr m0 \<Rightarrow>
             (let m = m0\<lparr>units := ''mm''\<rparr>;
                  s2 = s1\<lparr>mesh := Some m\<rparr>
              in if repair_mesh_watertight m
                 then (s2\<lparr>mesh_watertight := True\<rparr>, None)
                 else (s2, None)))"

text \<open>
  The watertightness part of \<^verbatim>\<open>load_mesh\<close> of \<^verbatim>\<open>main.py\<close>: the value it leaves in
  \<^verbatim>\<open>mesh_watertight\<close> when it sets one.
\<close>

definition main_load_watertight :: "'p mesh \<Rightarrow> bool option" where
  "main_load_watertight m =
     (if \<not> is_watertight m then
        (if \<not> truthy (fill_holes m) then
           (if \<not> truthy (fix_normals m) then None else Some True)
         else Some True)
      else Some True)"

subsection \<open>Slicing\<close>

text \<open>
  \<^verbatim>\<open>distance or self.distance\<close>: the argument when it is truthy (neither \<^verbatim>\<open>None\<close> nor
  zero), else the attribute, whose read raises when it was never assigned.
\<close>

definition distance_or :: "real option \<Rightarrow> real option \<Rightarrow> error + real" where
  "distance_or arg attr =
     (case arg of
        Some d \<Rightarrow>
          if d \<noteq> 0 then Inr d
          else (case attr of None \<Rightarrow> Inl AttributeError | Some a \<Rightarrow> Inr a)
      | None \<Rightarrow> (case attr of None \<Rightarrow> Inl AttributeError | Some a \<Rightarrow> Inr a))"

text \<open>\<^verbatim>\<open>int(x)\<close> on a float truncates towards zero.\<close>

definition py_int :: "real \<Rightarrow> int" where
  "py_int x = (if 0 \<le> x then \<lfloor>x\<rfloor> else \<lceil>x\<rceil>)"

text \<open>
  \<^verbatim>\<open>int(extent / distance)\<close>.  The numerator is a numpy float, so a zero divisor gives
  an infinity or a NaN, and \<^verbatim>\<open>int\<close> raises OverflowError or ValueError on it.
\<close>

definition int_of_quotient :: "real \<Rightarrow> real \<Rightarrow> error + int" where
  "int_of_quotient extent d =
     (if d = 0 then (if extent = 0 then Inl ValueError else Inl OverflowError)
      else Inr (py_int (extent / d)))"

text \<open>\<^verbatim>\<open>[i * distance for i in range(no_of_planes + 1)]\<close>.\<close>

definition z_list_of :: "int \<Rightarrow> real \<Rightarrow> real list" where
  "z_list_of no_of_planes d = map (\<lambda>i. real_of_int i * d) [0..no_of_planes]"

text \<open>
  The loop \<^verbatim>\<open>for i in range(len(slices_2D)): layers[z_list[i]] = slices_2D[i]\<close>, over
  the indices that remain.  Reading \<^verbatim>\<open>z_list[i]\<close> out of range raises IndexError.
\<close>

fun fill_layers ::
  "real list \<Rightarrow> 'p option list \<Rightarrow> nat list \<Rightarrow> 'p layer_dict \<Rightarrow> error + 'p layer_dict" where
  "fill_layers z_list slices [] acc = Inr acc"
| "fill_layers z_list slices (i # rest) acc =
     (if i < length z_list
      then fill_layers z_list slices rest (dict_set acc (z_list ! i) (slices ! i))
      else Inl IndexError)"

text \<open>The plane origin of \<^verbatim>\<open>stlslicer.py\<close>: \<^verbatim>\<open>list(self.mesh.centroid[:2]) + [z_min]\<close>.\<close>

definition slice_origin :: "'p mesh \<Rightarrow> real list" where
  "slice_origin m = [xc (centroid m), yc (centroid m)] @ [zc (fst (bounds m))]"

text \<open>The plane origin of \<^verbatim>\<open>main.py\<close>: \<^verbatim>\<open>list(self.mesh.centroid[:2]) + [0]\<close>.\<close>

definition main_slice_origin :: "'p mesh \<Rightarrow> real list" where
  "main_slice_origin m = [xc (centroid m), yc (centroid m)] @ [0]"

text \<open>
  \<^verbatim>\<open>slice_mesh\<close> of \<^verbatim>\<open>stlslicer.py\<close>.  The result is the returned dict and the session
  with \<^verbatim>\<open>self.layers\<close> replaced.  The debug message formats \<^verbatim>\<open>z_list[0]\<close> and
  \<^verbatim>\<open>z_list[-1]\<close>, which raises IndexError on an empty list; the text of the message is
  not modelled.
\<close>

definition slice_mesh ::
  "'p slicer \<Rightarrow> real option \<Rightarrow> error + ('p layer_dict \<times> 'p slicer)" where
  "slice_mesh s distance_arg =
     (case distance_or distance_arg (distance s) of
        Inl e \<Rightarrow> Inl e
      | Inr d \<Rightarrow>
          (case mesh s of
             None \<Rightarrow> Inl AttributeError
           | Some m \<Rightarrow>
               (let z_min = zc (fst (bounds m));
                    z_max = zc (snd (bounds m));
                    origin = slice_origin m
                in case int_of_quotient (z_max - z_min) d of
                     Inl e \<Rightarrow> Inl e
                   | Inr no_of_planes \<Rightarrow>
                       (let z_list = z_list_of no_of_planes d
                        in if z_list = [] then Inl IndexError
                           else
                             (let slices_2D = section_multiplane m origin [0, 0, 1] z_list
                              in case fill_layers z_list slices_2D [0..<length slices_2D] [] of
                                   Inl e \<Rightarrow> Inl e
                                 | Inr ls \<Rightarrow> Inr (ls, s\<lparr>layers := ls\<rparr>))))))"

text \<open>
  \<^verbatim>\<open>slice_mesh\<close> of \<^verbatim>\<open>main.py\<close>: the origin has Z = 0 and the number of planes is
  \<^verbatim>\<open>int(z_max / distance)\<close>.
\<close>

definition main_slice_mesh ::
  "'p slicer \<Rightarrow> real option \<Rightarrow> error + ('p layer_dict \<times> 'p slicer)" where
  "main_slice_mesh s distance_arg =
     (case distance_or distance_arg (distance s) of
        Inl e \<Rightarrow> Inl e
      | Inr d \<Rightarrow>
          (case mesh s of
             None \<Rightarrow> Inl AttributeError
           | Some m \<Rightarrow>
               (let z_max = zc (snd (bounds m));
                    origin = main_slice_origin m
                in case int_of_quotient z_max d of
                     Inl e \<Rightarrow> Inl e
                   | Inr no_of_planes \<Rightarrow>
                       (let z_list = z_list_of no_of_planes d
                        in if z_list = [] then Inl IndexError
                           else
                             (let slices_2D = section_multiplane m origin [0, 0, 1] z_list
                              in case fill_layers z_list slices_2D [0..<length slices_2D] [] of
                                   Inl e \<Rightarrow> Inl e
                                 | Inr ls \<Rightarrow> Inr (ls, s\<lparr>layers := ls\<rparr>))))))"

subsection \<open>The JSON encoder of \<^verbatim>\<open>util.py\<close>\<close>






text \<open>The values the encoder hands back to \<^verbatim>\<open>json\<close>.\<close>

datatype pyval =
    PyNone
  | PyBool bool
  | PyInt int
  | PyFloat real
  | PyStr string
  | PyList "pyval list"
  | PyDict "(string \<times> pyval) list"


















subsection \<open>The world outside the session: clock, file system, log\<close>

text \<open>
  \<^verbatim>\<open>datetime.now()\<close> and \<^verbatim>\<open>strftime("%Y%m%d-%H%M%S")\<close>, the format of
  \<^verbatim>\<open>STR_DATETIME_FORMAT\<close>: every field zero-padded to its width (four digits for the
  year, which \<^verbatim>\<open>datetime.now()\<close> gives in 1000..9999).
\<close>

record datetime =
  year :: nat
  month :: nat
  day :: nat
  hour :: nat
  minute :: nat
  second :: nat

definition digit :: "nat \<Rightarrow> char" where
  "digit n = ''0123456789'' ! (n mod 10)"

definition pad2 :: "nat \<Rightarrow> string" where
  "pad2 n = [digit (n div 10), digit n]"

definition pad4 :: "nat \<Rightarrow> string" where
  "pad4 n = [digit (n div 1000), digit (n div 100), digit (n div 10), digit n]"

definition strftime :: "datetime \<Rightarrow> string" where
  "strftime t = pad4 (year t) @ pad2 (month t) @ pad2 (day t) @ ''-''
                @ pad2 (hour t) @ pad2 (minute t) @ pad2 (second t)"

datatype level = DEBUG | INFO | ERROR

text \<open>
  What a file holds.  The text that \<^verbatim>\<open>json.dumps\<close> produces is represented by the
  dict that was dumped: \<open>JsonExport\<close> is \<^verbatim>\<open>slice_data\<close> (source, units, watertight,
  layers) and \<open>JsonIndex\<close> is \<^verbatim>\<open>json_dict\<close> (source, units, watertight, files).
  \<open>VectorFile p t\<close> is what \<^verbatim>\<open>p.export(file_type=t)\<close> writes.
\<close>

datatype 'p file_content =
    EmptyFile
  | JsonExport string string bool "'p layer_dict"
  | JsonIndex string string bool "(real \<times> string) list"
  | VectorFile 'p string

text \<open>
  \<open>ticks\<close> counts the readings of the clock so far; \<open>dirs\<close> are the directories that
  exist and \<open>files\<close> the files with their contents; \<open>logs\<close> is what the logger has
  received.
\<close>

record 'p world =
  dirs :: "string set"
  files :: "string \<rightharpoonup> 'p file_content"
  logs :: "(level \<times> string) list"
  ticks :: nat

text \<open>
  What the code is given from outside the repository: \<open>now n\<close> is the \<open>n\<close>-th reading of
  \<^verbatim>\<open>datetime.now()\<close>; \<open>str_float h\<close> is how an f-string prints the float \<open>h\<close>;
  \<open>path_export p t\<close> is the exception \<^verbatim>\<open>p.export(file_obj=..., file_type=t)\<close> raises on
  a Path2D \<open>p\<close>, \<open>None\<close> when it writes the file.
\<close>

record 'p env =
  now :: "nat \<Rightarrow> datetime"
  str_float :: "real \<Rightarrow> string"
  path_export :: "'p \<Rightarrow> string \<Rightarrow> error option"

definition log_to :: "level \<Rightarrow> string \<Rightarrow> 'p world \<Rightarrow> 'p world" where
  "log_to l msg w = w\<lparr>logs := logs w @ [(l, msg)]\<rparr>"

definition write_file :: "string \<Rightarrow> 'p file_content \<Rightarrow> 'p world \<Rightarrow> 'p world" where
  "write_file name c w = w\<lparr>files := (files w)(name \<mapsto> c)\<rparr>"

text \<open>
  \<^verbatim>\<open>os.makedirs(dir_name, exist_ok=False)\<close>: OSError when the name exists, else the
  directory is created.  Other causes of an OSError (permissions, a full disk) are outside
  the model.
\<close>

definition path_exists :: "'p world \<Rightarrow> string \<Rightarrow> bool" where
  "path_exists w name = (name \<in> dirs w \<or> name \<in> dom (files w))"

definition makedirs :: "'p world \<Rightarrow> string \<Rightarrow> error + 'p world" where
  "makedirs w dir_name =
     (if path_exists w dir_name then Inl OSError
      else Inr (w\<lparr>dirs := insert dir_name (dirs w)\<rparr>))"

subsection \<open>Export\<close>

text \<open>\<^verbatim>\<open>"_".join([self.filename, exp_type, date_time_str])\<close>.\<close>

definition dir_name_of :: "string \<Rightarrow> string \<Rightarrow> string \<Rightarrow> string" where
  "dir_name_of fname exp_type date_time_str = fname @ ''_'' @ exp_type @ ''_'' @ date_time_str"

text \<open>
  The loop \<^verbatim>\<open>while True\<close> of \<^verbatim>\<open>export_layers\<close>: read the clock, build the name, try
  to create the directory; an OSError starts the loop again, success leaves it.  A loop
  that never leaves has the value \<open>None\<close>.
\<close>

partial_function (option) make_export_dir ::
  "'p env \<Rightarrow> string \<Rightarrow> string \<Rightarrow> 'p world \<Rightarrow> (error + string \<times> 'p world) option" where
  "make_export_dir en fname exp_type w =
     (let date_time_str = strftime (now en (ticks w));
          w1 = w\<lparr>ticks := Suc (ticks w)\<rparr>;
          dir_name = dir_name_of fname exp_type date_time_str
      in case makedirs w1 dir_name of
           Inr w2 \<Rightarrow> Some (Inr (dir_name, w2))
         | Inl e \<Rightarrow>
             if e = OSError then make_export_dir en fname exp_type w1
             else Some (Inl e))"

text \<open>\<^verbatim>\<open>os.path.split(p)[1]\<close>: what follows the last slash.\<close>

definition split_tail :: "string \<Rightarrow> string" where
  "split_tail p = rev (takeWhile (\<lambda>c. c \<noteq> CHR ''/'') (rev p))"

text \<open>\<^verbatim>\<open>layers or self.layers\<close>: an absent or empty argument gives the attribute.\<close>

definition layers_or :: "'p layer_dict option \<Rightarrow> 'p layer_dict \<Rightarrow> 'p layer_dict" where
  "layers_or arg attr = (case arg of None \<Rightarrow> attr | Some l \<Rightarrow> if l = [] then attr else l)"

definition layer_filename :: "'p env \<Rightarrow> string \<Rightarrow> string \<Rightarrow> string \<Rightarrow> real \<Rightarrow> string" where
  "layer_filename en dir_name base_name exp_type height =
     dir_name @ ''/'' @ base_name @ ''_'' @ str_float en height @ ''.'' @ exp_type"

text \<open>
  \<^verbatim>\<open>path2D.export(file_obj=layer_filename_full, file_type=exp_type)\<close>: on \<^verbatim>\<open>None\<close> (an
  absent cross-section) the attribute lookup raises AttributeError.
\<close>

definition path2D_export ::
  "'p env \<Rightarrow> 'p option \<Rightarrow> string \<Rightarrow> string \<Rightarrow> 'p world \<Rightarrow> error + 'p world" where
  "path2D_export en path2D name exp_type w =
     (case path2D of
        None \<Rightarrow> Inl AttributeError
      | Some p \<Rightarrow>
          (case path_export en p exp_type of
             Some e \<Rightarrow> Inl e
           | None \<Rightarrow> Inr (write_file name (VectorFile p exp_type) w)))"

text \<open>
  The loop \<^verbatim>\<open>for height, path2D in layers.items()\<close> with its
  \<^verbatim>\<open>try ... except AttributeError\<close>; \<open>fs\<close> is \<^verbatim>\<open>json_dict["files"]\<close>.  \<open>not_created\<close> is
  the text of the debug message after the file name.
\<close>

fun export_loop ::
  "'p env \<Rightarrow> string \<Rightarrow> string \<Rightarrow> string \<Rightarrow> string \<Rightarrow> 'p layer_dict \<Rightarrow> (real \<times> string) list
     \<Rightarrow> 'p world \<Rightarrow> (error + (real \<times> string) list) \<times> 'p world" where
  "export_loop en not_created dir_name base_name exp_type [] fs w = (Inr fs, w)"
| "export_loop en not_created dir_name base_name exp_type ((height, path2D) # rest) fs w =
     (let layer_filename_full = layer_filename en dir_name base_name exp_type height
      in case path2D_export en path2D layer_filename_full exp_type w of
           Inr w1 \<Rightarrow>
             export_loop en not_created dir_name base_name exp_type rest
               (dict_set fs height layer_filename_full) w1
         | Inl e \<Rightarrow>
             if e = AttributeError
             then export_loop en not_created dir_name base_name exp_type rest fs
                    (log_to DEBUG (layer_filename_full @ not_created) w)
             else (Inl e, w))"

text \<open>
  The two outcomes of a layer's export that let the loop go on: \<open>exported\<close>, the
  cross-section is present and its export raises nothing; \<open>skipped\<close>, the cross-section
  is absent or its export raises AttributeError.
\<close>

definition exported :: "'p env \<Rightarrow> string \<Rightarrow> 'p option \<Rightarrow> bool" where
  "exported en exp_type path2D =
     (case path2D of None \<Rightarrow> False | Some p \<Rightarrow> path_export en p exp_type = None)"

definition skipped :: "'p env \<Rightarrow> string \<Rightarrow> 'p option \<Rightarrow> bool" where
  "skipped en exp_type path2D =
     (case path2D of None \<Rightarrow> True | Some p \<Rightarrow> path_export en p exp_type = Some AttributeError)"

definition not_supported_message :: "string \<Rightarrow> string" where
  "not_supported_message exp_type =
     ''Extension '' @ [CHR 0x27] @ exp_type @ [CHR 0x27] @ '' not supported. ''
     @ ''Currently supported: ['' @ [CHR 0x27] @ ''json'' @ [CHR 0x27] @ '', ''
     @ [CHR 0x27] @ ''dxf'' @ [CHR 0x27] @ '', '' @ [CHR 0x27] @ ''svg'' @ [CHR 0x27] @ '']''"

text \<open>
  \<^verbatim>\<open>export_layers\<close>, as both files have it; they differ in the name of the index file
  (\<open>index_suffix\<close>) and in the text of one debug message (\<open>not_created\<close>).  The session
  is not changed.  \<^verbatim>\<open>str(self.mesh.units)\<close> is evaluated first and raises AttributeError
  when the mesh is \<^verbatim>\<open>None\<close>.  \<^verbatim>\<open>open(..., "w")\<close> leaves an empty file until the text
  is written.
\<close>

definition export_layers_with ::
  "string \<Rightarrow> string \<Rightarrow> 'p env \<Rightarrow> 'p slicer \<Rightarrow> string \<Rightarrow> 'p layer_dict option \<Rightarrow> 'p world
     \<Rightarrow> ((error + bool) \<times> 'p world) option" where
  "export_layers_with index_suffix not_created en s exp_type layers_arg w =
     (let ls = layers_or layers_arg (layers s)
      in case mesh s of
           None \<Rightarrow> Some (Inl AttributeError, w)
         | Some m \<Rightarrow>
             if exp_type = ''json'' then
               (let exp_filename = filename s @ ''.'' @ exp_type;
                    w1 = write_file exp_filename EmptyFile w;
                    w2 = write_file exp_filename
                           (JsonExport (full_filename s) (units m) (mesh_watertight s) ls) w1;
                    w3 = log_to DEBUG (''Export to '' @ exp_filename @ '' finished.'') w2
                in Some (Inr True, w3))
             else if exp_type \<in> set [''dxf'', ''svg''] then
               (case make_export_dir en (filename s) exp_type w of
                  None \<Rightarrow> None
                | Some (Inl e) \<Rightarrow> Some (Inl e, w)
                | Some (Inr (dir_name, w1)) \<Rightarrow>
                    (let base_name = split_tail (filename s);
                         index_name = dir_name @ ''/'' @ base_name @ index_suffix;
                         w2 = write_file index_name EmptyFile w1
                     in case export_loop en not_created dir_name base_name exp_type ls [] w2 of
                          (Inl e, w3) \<Rightarrow> Some (Inl e, w3)
                        | (Inr fs, w3) \<Rightarrow>
                            (let w4 = write_file index_name
                                        (JsonIndex (full_filename s) (units m) (mesh_watertight s) fs) w3;
                                 w5 = log_to DEBUG (''Export to '' @ dir_name @ '' finished.'') w4
                             in Some (Inr True, w5))))
             else Some (Inr False, log_to ERROR (not_supported_message exp_type) w))"

text \<open>\<^verbatim>\<open>export_layers\<close> of \<^verbatim>\<open>stlslicer.py\<close>.\<close>

definition export_layers ::
  "'p env \<Rightarrow> 'p slicer \<Rightarrow> string \<Rightarrow> 'p layer_dict option \<Rightarrow> 'p world
     \<Rightarrow> ((error + bool) \<times> 'p world) option" where
  "export_layers = export_layers_with ''_info.json'' '' not created. No data to display.''"

text \<open>\<^verbatim>\<open>export_layers\<close> of \<^verbatim>\<open>main.py\<close>.\<close>

definition main_export_layers ::
  "'p env \<Rightarrow> 'p slicer \<Rightarrow> string \<Rightarrow> 'p layer_dict option \<Rightarrow> 'p world
     \<Rightarrow> ((error + bool) \<times> 'p world) option" where
  "main_export_layers = export_layers_with ''.json'' '' not created due to no data to display.''"

subsection \<open>A session to run the code on\<close>

text \<open>
  A stand-in for \<^verbatim>\<open>section_multiplane\<close>: one entry per height, \<open>None\<close> unless the plane
  at \<open>origin Z + height\<close> lies strictly between \<open>lo\<close> and \<open>hi\<close>; a cross-section records
  the origin and the height it was cut at.
\<close>

definition box_section ::
  "real \<Rightarrow> real \<Rightarrow> real list \<Rightarrow> real list \<Rightarrow> real list \<Rightarrow> (real list \<times> real) option list" where
  "box_section lo hi origin normal heights =
     map (\<lambda>h. if lo < origin ! 2 + h \<and> origin ! 2 + h < hi then Some (origin, h) else None)
       heights"

text \<open>
  A mesh that spans Z from -5 to 5, is not watertight, and has \<^verbatim>\<open>fix_normals\<close> and
  \<^verbatim>\<open>fill_holes\<close> as methods, as a trimesh mesh has.
\<close>

definition example_mesh :: "(real list \<times> real) mesh" where
  "example_mesh =
     \<lparr>bounds = ((0, 0, -5), (10, 10, 5)), centroid = (5, 5, 0), units = ''mm'',
      is_watertight = False, fix_normals = BoundMethod, fill_holes = BoundMethod,
      section_multiplane = box_section (-5) 5\<rparr>"

definition example_session :: "(real list \<times> real) slicer" where
  "example_session =
     \<lparr>layers = [], distance = None, full_filename = ''res/cube.stl'', filename = ''res/cube'',
      mesh = Some example_mesh, mesh_watertight = True\<rparr>"

text \<open>
  The session after slicing at pitch 2.5, and a world to export into: the clock advances
  by a second every two readings, and a directory of an earlier export in the same second
  exists.  The exporter of \<open>example_env\<close> raises AttributeError on the cross-section cut at
  height 5 and writes the others; the exporter of \<open>failing_env\<close> raises OSError there.
\<close>

definition example_layers :: "(real list \<times> real) layer_dict" where
  "example_layers =
     [(0, None), (5 / 2, Some ([5, 5, -5], 5 / 2)), (5, Some ([5, 5, -5], 5)),
      (15 / 2, Some ([5, 5, -5], 15 / 2)), (10, None)]"

definition example_sliced :: "(real list \<times> real) slicer" where
  "example_sliced = example_session\<lparr>layers := example_layers\<rparr>"

definition example_str_float :: "real \<Rightarrow> string" where
  "example_str_float h =
     (if h = 0 then ''0.0'' else if h = 5 / 2 then ''2.5'' else if h = 5 then ''5.0''
      else if h = 15 / 2 then ''7.5'' else ''10.0'')"

definition example_env :: "(real list \<times> real) env" where
  "example_env =
     \<lparr>now = (\<lambda>n. \<lparr>year = 2024, month = 1, day = 2, hour = 3, minute = 4, second = 5 + n div 2\<rparr>),
      str_float = example_str_float,
      path_export = (\<lambda>p t. if snd p = 5 then Some AttributeError else None)\<rparr>"


definition example_world :: "(real list \<times> real) world" where
  "example_world =
     \<lparr>dirs = {''res'', ''res/cube_dxf_20240102-030405''},
      files = [''res/cube.stl'' \<mapsto> EmptyFile], logs = [], ticks = 0\<rparr>"

section \<open>Properties\<close>

subsection \<open>The unset pitch\<close>

text \<open>
  C10.  On a session of \<^verbatim>\<open>stlslicer.py\<close> whose \<open>distance\<close> attribute was never
  assigned, \<open>slice_mesh\<close> called with the distance omitted or \<^verbatim>\<open>None\<close> (both
  \<open>None\<close> here) or with 0 raises AttributeError, whatever the rest of the session holds.
\<close>

theorem slice_mesh_unset_distance:
  assumes "distance s = None" and "d = None \<or> d = Some 0"
  shows "slice_mesh s d = Inl AttributeError"
  using assms by (auto simp: slice_mesh_def distance_or_def)

theorem slice_mesh_unset_distance_witness:
  "distance (init :: nat slicer) = None \<and> slice_mesh (init :: nat slicer) None = Inl AttributeError
   \<and> slice_mesh (init :: nat slicer) (Some 0) = Inl AttributeError"
  using slice_mesh_unset_distance [of "init :: nat slicer" None]
    slice_mesh_unset_distance [of "init :: nat slicer" "Some 0"]
  by (simp add: init_def)

subsection \<open>The layer store\<close>

lemma dict_set_fresh: "k \<notin> fst ` set kvs \<Longrightarrow> dict_set kvs k v = kvs @ [(k, v)]"
  by (induction kvs) auto

text \<open>
  The invariant of the loop: after the indices below \<open>k\<close>, the dict holds the first \<open>k\<close>
  heights with their cross-sections, in order.
\<close>

lemma fill_layers_zip_aux:
  assumes "distinct zl" and "length sl = length zl"
  shows "n \<le> length zl \<Longrightarrow> k \<le> n \<Longrightarrow> j = n - k \<Longrightarrow>
         fill_layers zl sl [k..<n] (zip (take k zl) (take k sl))
           = Inr (zip (take n zl) (take n sl))"
proof (induction j arbitrary: k)
  case 0
  then show ?case by simp
next
  case (Suc j)
  then have kn: "k < n" and klen: "k < length zl" by auto
  have fresh: "zl ! k \<notin> fst ` set (zip (take k zl) (take k sl))"
  proof
    assume "zl ! k \<in> fst ` set (zip (take k zl) (take k sl))"
    then have "zl ! k \<in> set (take k zl)"
      by (auto dest: set_zip_leftD)
    then obtain i where "i < k" "zl ! i = zl ! k"
      using klen by (auto simp: in_set_conv_nth)
    with assms(1) klen show False
      by (simp add: nth_eq_iff_index_eq)
  qed
  have step: "zip (take k zl) (take k sl) @ [(zl ! k, sl ! k)]
                = zip (take (Suc k) zl) (take (Suc k) sl)"
    using klen assms(2) by (simp add: take_Suc_conv_app_nth)
  have "fill_layers zl sl [k..<n] (zip (take k zl) (take k sl))
          = fill_layers zl sl [Suc k..<n] (zip (take (Suc k) zl) (take (Suc k) sl))"
    using kn klen by (simp add: upt_conv_Cons dict_set_fresh [OF fresh] step)
  also have "\<dots> = Inr (zip (take n zl) (take n sl))"
    using Suc.prems Suc.IH [of "Suc k"] by simp
  finally show ?case .
qed

lemma fill_layers_zip:
  assumes "distinct zl" and "length sl = length zl"
  shows "fill_layers zl sl [0..<length sl] [] = Inr (zip zl sl)"
  using fill_layers_zip_aux [OF assms, of "length zl" 0 "length zl"] assms(2) by simp

lemma distinct_z_list_of: "d \<noteq> 0 \<Longrightarrow> distinct (z_list_of n d)"
  by (simp add: z_list_of_def distinct_map inj_on_def)

lemma z_list_of_nonempty: "0 \<le> n \<Longrightarrow> z_list_of n d \<noteq> []"
  by (simp add: z_list_of_def)

lemma length_z_list_of: "length (z_list_of n d) = nat (n + 1)"
  by (simp add: z_list_of_def)

lemma hd_z_list_of: "0 \<le> n \<Longrightarrow> hd (z_list_of n d) = 0"
  by (simp add: z_list_of_def upto.simps hd_map)

lemma last_z_list_of: "0 \<le> n \<Longrightarrow> last (z_list_of n d) = real_of_int n * d"
  by (simp add: z_list_of_def last_map upto_rec2)

text \<open>
  What \<open>slice_mesh\<close> of \<^verbatim>\<open>stlslicer.py\<close> does for a positive pitch \<open>d\<close> (given as the
  argument or stored in the session) on a loaded mesh, when \<^verbatim>\<open>section_multiplane\<close>
  returns one entry per height.
\<close>

lemma slice_mesh_run:
  assumes m: "mesh s = Some m"
    and d: "distance_or arg (distance s) = Inr d" "0 < d"
    and b: "zc (fst (bounds m)) \<le> zc (snd (bounds m))"
    and zl: "zl = z_list_of \<lfloor>(zc (snd (bounds m)) - zc (fst (bounds m))) / d\<rfloor> d"
    and sl: "sl = section_multiplane m (slice_origin m) [0, 0, 1] zl"
    and len: "length sl = length zl"
  shows "slice_mesh s arg = Inr (zip zl sl, s\<lparr>layers := zip zl sl\<rparr>)"
proof -
  let ?q = "(zc (snd (bounds m)) - zc (fst (bounds m))) / d"
  have q: "0 \<le> ?q" using d(2) b by simp
  then have n: "0 \<le> \<lfloor>?q\<rfloor>" by simp
  have iq: "int_of_quotient (zc (snd (bounds m)) - zc (fst (bounds m))) d = Inr \<lfloor>?q\<rfloor>"
    using d(2) q by (simp add: int_of_quotient_def py_int_def)
  have ne: "zl \<noteq> []" using n zl by (simp add: z_list_of_nonempty)
  have dist: "distinct zl" using d(2) zl by (simp add: distinct_z_list_of)
  have fl: "fill_layers zl sl [0..<length sl] [] = Inr (zip zl sl)"
    by (rule fill_layers_zip [OF dist len])
  show ?thesis
    using m d(1) iq ne fl zl sl by (simp add: slice_mesh_def Let_def)
qed

text \<open>The same for \<open>slice_mesh\<close> of \<^verbatim>\<open>main.py\<close>, whose planes start at Z = 0.\<close>

lemma main_slice_mesh_run:
  assumes m: "mesh s = Some m"
    and d: "distance_or arg (distance s) = Inr d" "0 < d"
    and b: "0 \<le> zc (snd (bounds m))"
    and zl: "zl = z_list_of \<lfloor>zc (snd (bounds m)) / d\<rfloor> d"
    and sl: "sl = section_multiplane m (main_slice_origin m) [0, 0, 1] zl"
    and len: "length sl = length zl"
  shows "main_slice_mesh s arg = Inr (zip zl sl, s\<lparr>layers := zip zl sl\<rparr>)"
proof -
  let ?q = "zc (snd (bounds m)) / d"
  have q: "0 \<le> ?q" using d(2) b by simp
  then have n: "0 \<le> \<lfloor>?q\<rfloor>" by simp
  have iq: "int_of_quotient (zc (snd (bounds m))) d = Inr \<lfloor>?q\<rfloor>"
    using d(2) q by (simp add: int_of_quotient_def py_int_def)
  have ne: "zl \<noteq> []" using n zl by (simp add: z_list_of_nonempty)
  have dist: "distinct zl" using d(2) zl by (simp add: distinct_z_list_of)
  have fl: "fill_layers zl sl [0..<length sl] [] = Inr (zip zl sl)"
    by (rule fill_layers_zip [OF dist len])
  show ?thesis
    using m d(1) iq ne fl zl sl by (simp add: main_slice_mesh_def Let_def)
qed

text \<open>
  C4.  For a loaded mesh (with \<open>z_min \<le> z_max\<close>) and a positive pitch, when
  \<^verbatim>\<open>section_multiplane\<close> returns one entry per height as its documentation says, the
  layer store that \<open>slice_mesh\<close> returns and stores in the session has exactly one entry
  per scheduled height, in the order of the schedule, each with the cross-section of
  that height; an absent cross-section (\<open>None\<close>) is an entry like any other.
\<close>

theorem slice_mesh_one_entry_per_height:
  assumes "mesh s = Some m"
    and "distance_or arg (distance s) = Inr d" and "0 < d"
    and "zc (fst (bounds m)) \<le> zc (snd (bounds m))"
    and "zl = z_list_of \<lfloor>(zc (snd (bounds m)) - zc (fst (bounds m))) / d\<rfloor> d"
    and "sl = section_multiplane m (slice_origin m) [0, 0, 1] zl"
    and "length sl = length zl"
  shows "\<exists>ls. slice_mesh s arg = Inr (ls, s\<lparr>layers := ls\<rparr>)
           \<and> length ls = length zl \<and> map fst ls = zl \<and> map snd ls = sl
           \<and> distinct (map fst ls)"
proof -
  have run: "slice_mesh s arg = Inr (zip zl sl, s\<lparr>layers := zip zl sl\<rparr>)"
    using assms by (rule slice_mesh_run)
  have dist: "distinct zl" using assms(3,5) by (simp add: distinct_z_list_of)
  have "length (zip zl sl) = length zl \<and> map fst (zip zl sl) = zl
          \<and> map snd (zip zl sl) = sl \<and> distinct (map fst (zip zl sl))"
    using assms(7) dist by simp
  with run show ?thesis by blast
qed

theorem slice_mesh_one_entry_per_height_witness:
  "slice_mesh example_session (Some 5)
     = Inr ([(0, None), (5, Some ([5, 5, -5], 5)), (10, None)],
            example_session\<lparr>layers := [(0, None), (5, Some ([5, 5, -5], 5)), (10, None)]\<rparr>)
   \<and> z_list_of \<lfloor>(5 - (-5)) / 5 :: real\<rfloor> 5 = [0, 5, 10]"
proof -
  have z: "z_list_of \<lfloor>(5 - (-5)) / 5 :: real\<rfloor> 5 = [0, 5, 10]"
    by (simp add: z_list_of_def upto.simps)
  have b: "bounds example_mesh = ((0, 0, -5), (10, 10, 5))"
    by (simp add: example_mesh_def)
  have "\<exists>ls. slice_mesh example_session (Some 5) = Inr (ls, example_session\<lparr>layers := ls\<rparr>)
           \<and> length ls = length [0, 5, 10 :: real] \<and> map fst ls = [0, 5, 10]
           \<and> map snd ls = [None, Some ([5, 5, -5], 5), None]
           \<and> distinct (map fst ls)"
  proof (rule slice_mesh_one_entry_per_height [where m = example_mesh and d = 5])
    show "mesh example_session = Some example_mesh" by (simp add: example_session_def)
    show "distance_or (Some 5) (distance example_session) = Inr 5" by (simp add: distance_or_def)
    show "(0 :: real) < 5" by simp
    show "zc (fst (bounds example_mesh)) \<le> zc (snd (bounds example_mesh))"
      by (simp add: b zc_def)
    show "[0, 5, 10] = z_list_of \<lfloor>(zc (snd (bounds example_mesh)) - zc (fst (bounds example_mesh))) / 5\<rfloor> 5"
      using z by (simp add: b zc_def)
    show "[None, Some ([5, 5, -5], 5), None]
            = section_multiplane example_mesh (slice_origin example_mesh) [0, 0, 1] [0, 5, 10]"
      by (simp add: example_mesh_def slice_origin_def box_section_def xc_def yc_def zc_def)
    show "length [None, Some ([5 :: real, 5, -5], 5 :: real), None] = length [0, 5, 10 :: real]"
      by simp
  qed
  then obtain ls where ls:
    "slice_mesh example_session (Some 5) = Inr (ls, example_session\<lparr>layers := ls\<rparr>)
       \<and> length ls = length [0, 5, 10 :: real] \<and> map fst ls = [0, 5, 10]
       \<and> map snd ls = [None, Some ([5, 5, -5], 5), None]
       \<and> distinct (map fst ls)" ..
  have "ls = zip (map fst ls) (map snd ls)" by (simp add: zip_map_fst_snd)
  then have "ls = [(0, None), (5, Some ([5, 5, -5], 5)), (10, None)]"
    using ls by simp
  with ls z show ?thesis by simp
qed

subsection \<open>The schedule and the plane origin\<close>

lemma floor_mult_le:
  fixes e d :: real
  assumes "0 < d"
  shows "real_of_int \<lfloor>e / d\<rfloor> * d \<le> e"
proof -
  have "real_of_int \<lfloor>e / d\<rfloor> \<le> e / d" by simp
  then have "real_of_int \<lfloor>e / d\<rfloor> * d \<le> e / d * d"
    using assms by (simp only: mult_le_cancel_right_pos)
  then show ?thesis using assms by simp
qed

text \<open>
  The schedule of \<open>slice_mesh\<close> of \<^verbatim>\<open>stlslicer.py\<close>, for a loaded mesh and a positive
  pitch: the heights are \<open>i * d\<close> for \<open>i\<close> from 0 to \<open>\<lfloor>(z_max - z_min) / d\<rfloor>\<close>, so there are
  \<open>\<lfloor>(z_max - z_min) / d\<rfloor> + 1\<close> of them, the first is 0 and the last is at most
  \<open>z_max - z_min\<close>; and the planes are cut from the origin
  \<open>[centroid X, centroid Y, z_min]\<close>.
\<close>

lemma slice_mesh_schedule:
  assumes m: "mesh s = Some m"
    and d: "distance_or arg (distance s) = Inr d" "0 < d"
    and b: "zc (fst (bounds m)) \<le> zc (snd (bounds m))"
    and e: "extent = zc (snd (bounds m)) - zc (fst (bounds m))"
    and len: "length (section_multiplane m (slice_origin m) [0, 0, 1] (z_list_of \<lfloor>extent / d\<rfloor> d))
                = length (z_list_of \<lfloor>extent / d\<rfloor> d)"
  shows "\<exists>ls. slice_mesh s arg = Inr (ls, s\<lparr>layers := ls\<rparr>)
           \<and> map fst ls = map (\<lambda>i. real_of_int i * d) [0..\<lfloor>extent / d\<rfloor>]
           \<and> int (length ls) = \<lfloor>extent / d\<rfloor> + 1
           \<and> fst (hd ls) = 0
           \<and> fst (last ls) \<le> extent
           \<and> map snd ls = section_multiplane m
                 [xc (centroid m), yc (centroid m), zc (fst (bounds m))] [0, 0, 1] (map fst ls)"
proof -
  define zl where "zl = z_list_of \<lfloor>extent / d\<rfloor> d"
  define sl where "sl = section_multiplane m (slice_origin m) [0, 0, 1] zl"
  have len': "length sl = length zl" using len by (simp add: sl_def zl_def)
  have n: "0 \<le> \<lfloor>extent / d\<rfloor>" using d(2) b e by simp
  have ne: "zl \<noteq> []" using n by (simp add: zl_def z_list_of_nonempty)
  have run: "slice_mesh s arg = Inr (zip zl sl, s\<lparr>layers := zip zl sl\<rparr>)"
    using slice_mesh_run [OF m d b _ _ len'] by (simp add: zl_def sl_def e)
  have keys: "map fst (zip zl sl) = zl" using len' by (simp add: map_fst_zip)
  have k1: "map fst (zip zl sl) = map (\<lambda>i. real_of_int i * d) [0..\<lfloor>extent / d\<rfloor>]"
    using keys by (simp add: zl_def z_list_of_def)
  have k2: "int (length (zip zl sl)) = \<lfloor>extent / d\<rfloor> + 1"
    using len' n by (simp add: zl_def length_z_list_of)
  have zne: "zip zl sl \<noteq> []" using ne len' by (cases zl; cases sl) auto
  have "fst (hd (zip zl sl)) = hd (map fst (zip zl sl))" using zne by (simp add: hd_map)
  then have k3: "fst (hd (zip zl sl)) = 0" using keys n by (simp add: zl_def hd_z_list_of)
  have "fst (last (zip zl sl)) = last (map fst (zip zl sl))" using zne by (simp add: last_map)
  then have "fst (last (zip zl sl)) = real_of_int \<lfloor>extent / d\<rfloor> * d"
    using keys n by (simp add: zl_def last_z_list_of)
  then have k4: "fst (last (zip zl sl)) \<le> extent" using floor_mult_le [OF d(2)] by simp
  have k5: "map snd (zip zl sl) = section_multiplane m
              [xc (centroid m), yc (centroid m), zc (fst (bounds m))] [0, 0, 1] (map fst (zip zl sl))"
    using len' keys by (simp add: map_snd_zip sl_def slice_origin_def)
  show ?thesis using run k1 k2 k3 k4 k5 by blast
qed

text \<open>
  C1.  \<open>slice_mesh\<close> of \<^verbatim>\<open>stlslicer.py\<close> builds the schedule the claim describes
  (\<open>slice_mesh_schedule\<close>).  \<open>slice_mesh\<close> of \<^verbatim>\<open>main.py\<close> does not: it computes
  \<^verbatim>\<open>int(z_max / distance)\<close>.  On the mesh that spans Z from -5 to 5, sliced at pitch 1,
  the claim gives \<open>\<lfloor>(5 - (-5)) / 1\<rfloor> + 1 = 11\<close> heights 0, ..., 10, which
  \<^verbatim>\<open>stlslicer.py\<close> builds; \<^verbatim>\<open>main.py\<close> builds the 6 heights 0, ..., 5.
\<close>

theorem main_slice_mesh_schedule_differs:
  "map_sum id (\<lambda>r. map fst (fst r)) (main_slice_mesh example_session (Some 1))
     = Inr [0, 1, 2, 3, 4, 5]
   \<and> map_sum id (\<lambda>r. map fst (fst r)) (slice_mesh example_session (Some 1))
     = Inr [0, 1, 2, 3, 4, 5, 6, 7, 8, 9, 10]
   \<and> \<lfloor>(zc (snd (bounds example_mesh)) - zc (fst (bounds example_mesh))) / 1\<rfloor> + 1 = 11"
  by (simp add: main_slice_mesh_def slice_mesh_def example_session_def example_mesh_def
      distance_or_def int_of_quotient_def py_int_def z_list_of_def main_slice_origin_def
      slice_origin_def zc_def xc_def yc_def box_section_def Let_def upto.simps)

text \<open>
  C5.  \<open>slice_mesh\<close> of \<^verbatim>\<open>stlslicer.py\<close> cuts from the origin
  \<open>[centroid X, centroid Y, z_min]\<close> (\<open>slice_mesh_schedule\<close>).  \<open>slice_mesh\<close> of
  \<^verbatim>\<open>main.py\<close> cuts from \<open>[centroid X, centroid Y, 0]\<close>: on the mesh that spans Z from -5
  to 5 with centroid (5, 5, 0), sliced at pitch 5, the cross-sections it stores were cut
  from the origin \<open>[5, 5, 0]\<close>, and the first slice is in the middle of the mesh, not at
  its bottom, Z = -5.
\<close>

theorem main_slice_mesh_origin_differs:
  "main_slice_mesh example_session (Some 5)
     = Inr ([(0, Some ([5, 5, 0], 0)), (5, None)],
            example_session\<lparr>layers := [(0, Some ([5, 5, 0], 0)), (5, None)]\<rparr>)
   \<and> main_slice_origin example_mesh = [5, 5, 0]
   \<and> slice_origin example_mesh = [5, 5, -5]
   \<and> zc (fst (bounds example_mesh)) = -5"
  by (simp add: main_slice_mesh_def example_session_def example_mesh_def
      distance_or_def int_of_quotient_def py_int_def z_list_of_def main_slice_origin_def
      slice_origin_def zc_def xc_def yc_def box_section_def Let_def upto.simps)

subsection \<open>A pitch that is zero or negative\<close>

lemma py_int_neg_quotient:
  fixes e d :: real
  assumes "0 \<le> e" "d < 0"
  shows "py_int (e / d) = 0 \<longleftrightarrow> e < - d"
proof (cases "e = 0")
  case True
  then show ?thesis using assms by (simp add: py_int_def)
next
  case False
  then have neg: "e / d < 0" using assms by (simp add: divide_neg_neg divide_less_0_iff)
  have "\<lceil>e / d\<rceil> = 0 \<longleftrightarrow> -1 < e / d"
    using neg by (auto simp: ceiling_eq_iff)
  also have "\<dots> \<longleftrightarrow> e < - d"
    using assms by (simp add: field_simps)
  finally show ?thesis using neg by (simp add: py_int_def)
qed

lemma py_int_neg_quotient_le:
  fixes e d :: real
  assumes "0 \<le> e" "d < 0"
  shows "py_int (e / d) \<le> 0"
  using assms by (auto simp: py_int_def divide_le_0_iff ceiling_le_zero)

lemma slice_mesh_negative_empty:
  assumes m: "mesh s = Some m"
    and b: "zc (fst (bounds m)) \<le> zc (snd (bounds m))"
    and d: "d < 0" "- d \<le> zc (snd (bounds m)) - zc (fst (bounds m))"
  shows "slice_mesh s (Some d) = Inl IndexError"
proof -
  let ?e = "zc (snd (bounds m)) - zc (fst (bounds m))"
  have e: "0 \<le> ?e" using b by simp
  have "py_int (?e / d) \<noteq> 0" using py_int_neg_quotient [OF e d(1)] d(2) by simp
  then have "py_int (?e / d) < 0" using py_int_neg_quotient_le [OF e d(1)] by simp
  then have "z_list_of (py_int (?e / d)) d = []" by (simp add: z_list_of_def)
  then show ?thesis
    using m d(1) by (simp add: slice_mesh_def distance_or_def int_of_quotient_def Let_def)
qed

lemma slice_mesh_negative_single:
  assumes m: "mesh s = Some m"
    and b: "zc (fst (bounds m)) \<le> zc (snd (bounds m))"
    and d: "d < 0" "zc (snd (bounds m)) - zc (fst (bounds m)) < - d"
    and sl: "section_multiplane m (slice_origin m) [0, 0, 1] [0] = [c]"
  shows "slice_mesh s (Some d) = Inr ([(0, c)], s\<lparr>layers := [(0, c)]\<rparr>)"
proof -
  let ?e = "zc (snd (bounds m)) - zc (fst (bounds m))"
  have e: "0 \<le> ?e" using b by simp
  have "py_int (?e / d) = 0" using py_int_neg_quotient [OF e d(1)] d(2) by simp
  then have "int_of_quotient ?e d = Inr 0" using d(1) by (simp add: int_of_quotient_def)
  then show ?thesis
    using m d(1) sl by (simp add: slice_mesh_def distance_or_def z_list_of_def Let_def)
qed

text \<open>
  C3, as the code has it.  \<open>slice_mesh\<close> of \<^verbatim>\<open>stlslicer.py\<close> does not check the pitch,
  and no branch reports an invalid parameter.  A pitch of zero counts as no pitch: the
  stored distance of the session is used in its place.  A negative pitch is divided by:
  on a loaded mesh (with \<open>z_min \<le> z_max\<close>) the schedule is empty and the operation fails
  with IndexError when \<open>- pitch \<le> z_max - z_min\<close>, and otherwise the schedule is the one
  height 0 and, \<^verbatim>\<open>section_multiplane\<close> returning one cross-section \<open>c\<close> for it, the
  operation succeeds with the one layer \<open>(0, c)\<close>.
\<close>

theorem slice_mesh_nonpositive_pitch:
  assumes "mesh s = Some m" and "zc (fst (bounds m)) \<le> zc (snd (bounds m))"
    and "extent = zc (snd (bounds m)) - zc (fst (bounds m))"
  shows "slice_mesh s (Some 0) = slice_mesh s None
     \<and> (\<forall>a. distance s = Some a \<and> a \<noteq> 0 \<longrightarrow> slice_mesh s (Some 0) = slice_mesh s (Some a))
     \<and> (\<forall>d. d < 0 \<and> - d \<le> extent \<longrightarrow> slice_mesh s (Some d) = Inl IndexError)
     \<and> (\<forall>d c. d < 0 \<and> extent < - d
            \<and> section_multiplane m (slice_origin m) [0, 0, 1] [0] = [c]
          \<longrightarrow> slice_mesh s (Some d) = Inr ([(0, c)], s\<lparr>layers := [(0, c)]\<rparr>))"
proof (intro conjI allI impI)
  show "slice_mesh s (Some 0) = slice_mesh s None"
    by (simp add: slice_mesh_def distance_or_def)
next
  fix a assume "distance s = Some a \<and> a \<noteq> 0"
  then show "slice_mesh s (Some 0) = slice_mesh s (Some a)"
    by (simp add: slice_mesh_def distance_or_def)
next
  fix d assume "d < 0 \<and> - d \<le> extent"
  then show "slice_mesh s (Some d) = Inl IndexError"
    using slice_mesh_negative_empty [OF assms(1,2), of d] assms(3) by simp
next
  fix d c
  assume "d < 0 \<and> extent < - d \<and> section_multiplane m (slice_origin m) [0, 0, 1] [0] = [c]"
  then show "slice_mesh s (Some d) = Inr ([(0, c)], s\<lparr>layers := [(0, c)]\<rparr>)"
    using slice_mesh_negative_single [OF assms(1,2), of d c] assms(3) by simp
qed

theorem slice_mesh_nonpositive_pitch_witness:
  "slice_mesh example_session (Some 0) = slice_mesh example_session None
   \<and> slice_mesh (example_session\<lparr>distance := Some 5\<rparr>) (Some 0)
       = slice_mesh (example_session\<lparr>distance := Some 5\<rparr>) (Some 5)
   \<and> slice_mesh example_session (Some (-5)) = Inl IndexError
   \<and> slice_mesh example_session (Some (-20))
       = Inr ([(0, None)], example_session\<lparr>layers := [(0, None)]\<rparr>)"
proof -
  have m: "mesh example_session = Some example_mesh"
    and m': "mesh (example_session\<lparr>distance := Some 5\<rparr>) = Some example_mesh"
    by (simp_all add: example_session_def)
  have b: "zc (fst (bounds example_mesh)) \<le> zc (snd (bounds example_mesh))"
    and e: "(10 :: real) = zc (snd (bounds example_mesh)) - zc (fst (bounds example_mesh))"
    by (simp_all add: example_mesh_def zc_def)
  have c: "section_multiplane example_mesh (slice_origin example_mesh) [0, 0, 1] [0] = [None]"
    by (simp add: example_mesh_def slice_origin_def box_section_def xc_def yc_def zc_def)
  note t = slice_mesh_nonpositive_pitch [OF m b e]
  note t' = slice_mesh_nonpositive_pitch [OF m' b e]
  have 1: "slice_mesh example_session (Some 0) = slice_mesh example_session None"
    using t by (rule conjunct1)
  have 2: "slice_mesh (example_session\<lparr>distance := Some 5\<rparr>) (Some 0)
             = slice_mesh (example_session\<lparr>distance := Some 5\<rparr>) (Some 5)"
    using t' [THEN conjunct2, THEN conjunct1, THEN spec, of 5] by simp
  have 3: "slice_mesh example_session (Some (-5)) = Inl IndexError"
    using t by simp
  have 4: "slice_mesh example_session (Some (-20))
             = Inr ([(0, None)], example_session\<lparr>layers := [(0, None)]\<rparr>)"
    using t c by simp
  show ?thesis using 1 2 3 4 by simp
qed

text \<open>
  C3, as the claim states it, fails: with the pitch -20 on the mesh that spans Z from -5
  to 5 the operation divides by the pitch and succeeds with a one-height schedule, and
  with the pitch 0 on a session whose stored distance is 5 it succeeds with the schedule
  of pitch 5.
\<close>

theorem slice_mesh_nonpositive_pitch_counterexample:
  "slice_mesh example_session (Some (-20))
     = Inr ([(0, None)], example_session\<lparr>layers := [(0, None)]\<rparr>)
   \<and> slice_mesh (example_session\<lparr>distance := Some 5\<rparr>) (Some 0)
     = Inr ([(0, None), (5, Some ([5, 5, -5], 5)), (10, None)],
            example_session\<lparr>distance := Some 5,
              layers := [(0, None), (5, Some ([5, 5, -5], 5)), (10, None)]\<rparr>)"
  by (simp add: slice_mesh_def example_session_def example_mesh_def
      distance_or_def int_of_quotient_def py_int_def z_list_of_def
      slice_origin_def zc_def xc_def yc_def box_section_def Let_def upto.simps)

subsection \<open>Watertightness repair\<close>

text \<open>
  A mesh whose \<^verbatim>\<open>fix_normals\<close> is a method: the condition \<^verbatim>\<open>not mesh.fix_normals\<close> is
  false, so the repair reports success whether or not the mesh is watertight, and never
  reaches \<^verbatim>\<open>fill_holes\<close>.
\<close>

lemma repair_mesh_watertight_method:
  "fix_normals m = BoundMethod \<Longrightarrow> repair_mesh_watertight m"
  by (simp add: repair_mesh_watertight_def)

text \<open>
  Were both attributes booleans that say whether the step made the mesh watertight, the
  function would report what the claim describes.
\<close>

lemma repair_mesh_watertight_booleans:
  "fix_normals m = AttrBool a \<Longrightarrow> fill_holes m = AttrBool b \<Longrightarrow>
   repair_mesh_watertight m = (is_watertight m \<or> a \<or> b)"
  by (simp add: repair_mesh_watertight_def)

lemma main_load_watertight_method:
  "fill_holes m = BoundMethod \<Longrightarrow> main_load_watertight m = Some True"
  by (simp add: main_load_watertight_def)

text \<open>
  C2.  The example mesh is not watertight and nothing repairs it, yet
  \<open>repair_mesh_watertight\<close> returns \<open>True\<close> and \<open>load_mesh\<close> records
  \<open>mesh_watertight = True\<close> in a session that \<open>init\<close> created with the flag \<open>False\<close>;
  the copy in \<^verbatim>\<open>main.py\<close> sets the flag to \<open>True\<close> as well.
\<close>

theorem repair_mesh_watertight_not_watertight:
  "\<not> is_watertight example_mesh
   \<and> repair_mesh_watertight example_mesh
   \<and> \<not> mesh_watertight (init :: (real list \<times> real) slicer)
   \<and> mesh_watertight (fst (load_mesh init ''res/cube.stl'' ''res/cube'' (Inr example_mesh)))
   \<and> snd (load_mesh init ''res/cube.stl'' ''res/cube'' (Inr example_mesh)) = None
   \<and> main_load_watertight example_mesh = Some True"
  by (simp add: example_mesh_def repair_mesh_watertight_def load_mesh_def init_def
      main_load_watertight_def Let_def)

subsection \<open>The JSON encoder\<close>







subsection \<open>Export: an unsupported format\<close>

lemma export_layers_with_unsupported:
  assumes "mesh s = Some m"
    and "exp_type \<noteq> ''json''" and "exp_type \<noteq> ''dxf''" and "exp_type \<noteq> ''svg''"
  shows "export_layers_with ix nc en s exp_type la w
           = Some (Inr False, log_to ERROR (not_supported_message exp_type) w)"
  using assms by (simp add: export_layers_with_def Let_def)

lemma export_layers_with_no_mesh:
  "mesh s = None \<Longrightarrow> export_layers_with ix nc en s exp_type la w = Some (Inl AttributeError, w)"
  by (simp add: export_layers_with_def Let_def)

text \<open>
  C6, as the code has it.  On a session with a loaded mesh, for every format string
  other than json, dxf and svg, \<open>export_layers\<close> returns \<open>False\<close> (no exception, and the
  call returns), creates no directory and writes no file, and logs one error line that
  names the format and lists the supported formats.
\<close>

theorem export_layers_unsupported:
  assumes "mesh s = Some m"
    and "exp_type \<noteq> ''json''" and "exp_type \<noteq> ''dxf''" and "exp_type \<noteq> ''svg''"
  shows "\<exists>w'. export_layers en s exp_type la w = Some (Inr False, w')
           \<and> dirs w' = dirs w \<and> files w' = files w \<and> ticks w' = ticks w
           \<and> logs w' = logs w @ [(ERROR, not_supported_message exp_type)]
           \<and> not_supported_message exp_type
               = ''Extension '' @ [CHR 0x27] @ exp_type @ [CHR 0x27]
                 @ '' not supported. Currently supported: ''
                 @ [CHR ''['', CHR 0x27] @ ''json'' @ [CHR 0x27, CHR '','', CHR '' '', CHR 0x27]
                 @ ''dxf'' @ [CHR 0x27, CHR '','', CHR '' '', CHR 0x27] @ ''svg''
                 @ [CHR 0x27, CHR '']'']"
proof -
  have "export_layers en s exp_type la w
          = Some (Inr False, log_to ERROR (not_supported_message exp_type) w)"
    unfolding export_layers_def using assms by (rule export_layers_with_unsupported)
  then show ?thesis by (simp add: log_to_def not_supported_message_def)
qed

theorem export_layers_unsupported_witness:
  "\<exists>w'. export_layers example_env example_sliced ''obj'' None example_world = Some (Inr False, w')
     \<and> dirs w' = dirs example_world \<and> files w' = files example_world
     \<and> logs w' = [(ERROR, not_supported_message ''obj'')]"
proof -
  have m: "mesh example_sliced = Some example_mesh"
    by (simp add: example_sliced_def example_session_def)
  have n: "''obj'' \<noteq> ''json''" "''obj'' \<noteq> ''dxf''" "''obj'' \<noteq> ''svg''" by simp_all
  note t = export_layers_unsupported [OF m n, of example_env None example_world]
  have l: "logs example_world = []" by (simp add: example_world_def)
  from t obtain w' where w': "export_layers example_env example_sliced ''obj'' None example_world = Some (Inr False, w')"
    and wd: "dirs w' = dirs example_world" and wf: "files w' = files example_world"
    and wl: "logs w' = logs example_world @ [(ERROR, not_supported_message ''obj'')]"
    by (elim exE conjE)
  have wl': "logs w' = [(ERROR, not_supported_message ''obj'')]"
    unfolding wl l by simp
  show ?thesis
    by (rule exI [of _ w'], intro conjI, rule w', rule wd, rule wf, rule wl')
qed

text \<open>
  C6, as the claim states it, fails on a session without a mesh: \<open>export_layers\<close> reads
  \<^verbatim>\<open>self.mesh.units\<close> before it looks at the format and raises AttributeError.
\<close>

theorem export_layers_unsupported_counterexample:
  "export_layers example_env init ''obj'' None example_world = Some (Inl AttributeError, example_world)"
  by (simp add: export_layers_def export_layers_with_no_mesh init_def)

subsection \<open>Export: the directory\<close>

lemma makedirs_exists: "path_exists w d \<Longrightarrow> makedirs (w\<lparr>ticks := n\<rparr>) d = Inl OSError"
  by (auto simp: makedirs_def path_exists_def)

lemma makedirs_fresh:
  "\<not> path_exists w d \<Longrightarrow>
   makedirs (w\<lparr>ticks := n\<rparr>) d = Inr (w\<lparr>ticks := n, dirs := insert d (dirs w)\<rparr>)"
  by (auto simp: makedirs_def path_exists_def)

lemma path_exists_ticks: "path_exists (w\<lparr>ticks := n\<rparr>) d = path_exists w d"
  by (simp add: path_exists_def)

text \<open>
  The loop leaves at the first reading \<open>k\<close> of the clock whose name does not exist, having
  found the names of all earlier readings taken, and creates exactly that directory.
\<close>

lemma make_export_dir_first_fresh:
  assumes "j = k - ticks w" and "ticks w \<le> k"
    and "\<And>i. ticks w \<le> i \<Longrightarrow> i < k \<Longrightarrow> path_exists w (dir_name_of fname ty (strftime (now en i)))"
    and "\<not> path_exists w (dir_name_of fname ty (strftime (now en k)))"
  shows "make_export_dir en fname ty w
           = Some (Inr (dir_name_of fname ty (strftime (now en k)),
                        w\<lparr>ticks := Suc k, dirs := insert (dir_name_of fname ty (strftime (now en k))) (dirs w)\<rparr>))"
  using assms
proof (induction j arbitrary: w)
  case 0
  then have k: "ticks w = k" by simp
  show ?case
    using "0.prems"(4) k
    by (subst make_export_dir.simps) (simp add: Let_def makedirs_fresh)
next
  case (Suc j)
  then have lt: "ticks w < k" by simp
  let ?w1 = "w\<lparr>ticks := Suc (ticks w)\<rparr>"
  have t: "path_exists w (dir_name_of fname ty (strftime (now en (ticks w))))"
    using Suc.prems(3) [of "ticks w"] lt by simp
  have step: "make_export_dir en fname ty w = make_export_dir en fname ty ?w1"
    using t by (subst make_export_dir.simps) (simp add: Let_def makedirs_exists)
  have "make_export_dir en fname ty ?w1
          = Some (Inr (dir_name_of fname ty (strftime (now en k)),
                       ?w1\<lparr>ticks := Suc k, dirs := insert (dir_name_of fname ty (strftime (now en k))) (dirs ?w1)\<rparr>))"
  proof (rule Suc.IH)
    show "j = k - ticks ?w1" using Suc.prems(1) by simp
    show "ticks ?w1 \<le> k" using lt by simp
    show "path_exists ?w1 (dir_name_of fname ty (strftime (now en i)))" if "ticks ?w1 \<le> i" "i < k" for i
      using Suc.prems(3) [of i] that by (simp add: path_exists_ticks)
    show "\<not> path_exists ?w1 (dir_name_of fname ty (strftime (now en k)))"
      using Suc.prems(4) by (simp add: path_exists_ticks)
  qed
  then show ?case using step by simp
qed

text \<open>A loop that returns has met a reading of the clock whose name did not exist.\<close>

lemma make_export_dir_some_fresh:
  assumes "make_export_dir en fname ty w = Some r"
  shows "\<exists>k. ticks w \<le> k \<and> \<not> path_exists w (dir_name_of fname ty (strftime (now en k)))"
  using assms
proof (induct en fname ty w r rule: make_export_dir.raw_induct [rotated 1, consumes 1])
  case (1 loop en fname ty w r)
  note IH = "1"(1) and body = "1"(2)
  let ?d = "dir_name_of fname ty (strftime (now en (ticks w)))"
  let ?w1 = "w\<lparr>ticks := Suc (ticks w)\<rparr>"
  show ?case
  proof (cases "path_exists w ?d")
    case False
    have "ticks w \<le> ticks w \<and> \<not> path_exists w ?d" using False by simp
    then show ?thesis by (rule exI)
  next
    case True
    then have md: "makedirs ?w1 ?d = Inl OSError"
      by (rule makedirs_exists)
    have "loop en fname ty ?w1 = Some r"
      using body unfolding Let_def md by simp
    from IH [OF this] obtain k
      where k: "ticks ?w1 \<le> k \<and> \<not> path_exists ?w1 (dir_name_of fname ty (strftime (now en k)))" ..
    then have "ticks w \<le> k \<and> \<not> path_exists w (dir_name_of fname ty (strftime (now en k)))"
      by (simp add: path_exists_ticks)
    then show ?thesis by (rule exI)
  qed
qed

lemma make_export_dir_result:
  assumes "make_export_dir en fname ty w = Some r"
  shows "\<exists>k. ticks w \<le> k
           \<and> r = Inr (dir_name_of fname ty (strftime (now en k)),
                        w\<lparr>ticks := Suc k, dirs := insert (dir_name_of fname ty (strftime (now en k))) (dirs w)\<rparr>)
           \<and> \<not> path_exists w (dir_name_of fname ty (strftime (now en k)))
           \<and> (\<forall>i. ticks w \<le> i \<and> i < k \<longrightarrow> path_exists w (dir_name_of fname ty (strftime (now en i))))"
proof -
  define fresh where
    "fresh = (\<lambda>k. ticks w \<le> k \<and> \<not> path_exists w (dir_name_of fname ty (strftime (now en k))))"
  have ex: "\<exists>k. fresh k"
    using make_export_dir_some_fresh [OF assms] by (simp add: fresh_def)
  define k where "k = (LEAST k. fresh k)"
  have fk: "fresh k" unfolding k_def using ex by (rule LeastI_ex)
  have least: "\<And>i. i < k \<Longrightarrow> \<not> fresh i" unfolding k_def by (rule not_less_Least)
  have k1: "ticks w \<le> k" and k3: "\<not> path_exists w (dir_name_of fname ty (strftime (now en k)))"
    using fk by (simp_all add: fresh_def)
  have k4: "path_exists w (dir_name_of fname ty (strftime (now en i)))" if "ticks w \<le> i" "i < k" for i
    using least [OF that(2)] that(1) by (simp add: fresh_def)
  have "make_export_dir en fname ty w
          = Some (Inr (dir_name_of fname ty (strftime (now en k)),
                       w\<lparr>ticks := Suc k, dirs := insert (dir_name_of fname ty (strftime (now en k))) (dirs w)\<rparr>))"
    by (rule make_export_dir_first_fresh [OF refl k1 k4 k3])
  then have k2: "r = Inr (dir_name_of fname ty (strftime (now en k)),
                       w\<lparr>ticks := Suc k, dirs := insert (dir_name_of fname ty (strftime (now en k))) (dirs w)\<rparr>)"
    using assms by simp
  have "ticks w \<le> k
           \<and> r = Inr (dir_name_of fname ty (strftime (now en k)),
                        w\<lparr>ticks := Suc k, dirs := insert (dir_name_of fname ty (strftime (now en k))) (dirs w)\<rparr>)
           \<and> \<not> path_exists w (dir_name_of fname ty (strftime (now en k)))
           \<and> (\<forall>i. ticks w \<le> i \<and> i < k \<longrightarrow> path_exists w (dir_name_of fname ty (strftime (now en i))))"
    using k1 k2 k3 k4 by simp
  then show ?thesis by (rule exI)
qed

text \<open>The loop runs forever exactly when the name of every reading of the clock exists.\<close>

lemma make_export_dir_None:
  "make_export_dir en fname ty w = None
     \<longleftrightarrow> (\<forall>k\<ge>ticks w. path_exists w (dir_name_of fname ty (strftime (now en k))))"
proof
  assume none: "make_export_dir en fname ty w = None"
  show "\<forall>k\<ge>ticks w. path_exists w (dir_name_of fname ty (strftime (now en k)))"
  proof (rule ccontr)
    assume "\<not> (\<forall>k\<ge>ticks w. path_exists w (dir_name_of fname ty (strftime (now en k))))"
    then have ex: "\<exists>k. ticks w \<le> k \<and> \<not> path_exists w (dir_name_of fname ty (strftime (now en k)))"
      by simp
    define fresh where
      "fresh = (\<lambda>k. ticks w \<le> k \<and> \<not> path_exists w (dir_name_of fname ty (strftime (now en k))))"
    have ex': "\<exists>k. fresh k" using ex by (simp add: fresh_def)
    define k where "k = (LEAST k. fresh k)"
    have fk: "fresh k" unfolding k_def using ex' by (rule LeastI_ex)
    have least: "\<And>i. i < k \<Longrightarrow> \<not> fresh i" unfolding k_def by (rule not_less_Least)
    have k1: "ticks w \<le> k" and k3: "\<not> path_exists w (dir_name_of fname ty (strftime (now en k)))"
      using fk by (simp_all add: fresh_def)
    have k4: "path_exists w (dir_name_of fname ty (strftime (now en i)))" if "ticks w \<le> i" "i < k" for i
      using least [OF that(2)] that(1) by (simp add: fresh_def)
    have "make_export_dir en fname ty w \<noteq> None"
      using make_export_dir_first_fresh [OF refl k1 k4 k3] by simp
    with none show False by simp
  qed
next
  assume all: "\<forall>k\<ge>ticks w. path_exists w (dir_name_of fname ty (strftime (now en k)))"
  show "make_export_dir en fname ty w = None"
  proof (cases "make_export_dir en fname ty w")
    case None
    then show ?thesis .
  next
    case (Some r)
    from make_export_dir_some_fresh [OF Some] all show ?thesis by auto
  qed
qed

subsection \<open>Export: the time stamp\<close>

lemma digit_in: "digit n \<in> set ''0123456789''"
  unfolding digit_def by (rule nth_mem) simp

lemma strftime_length: "length (strftime t) = 15"
  by (simp add: strftime_def pad2_def pad4_def)

lemma strftime_dash: "strftime t ! 8 = CHR ''-''"
  by (simp add: strftime_def pad2_def pad4_def)

lemma strftime_digits:
  "set (take 8 (strftime t)) \<union> set (drop 9 (strftime t)) \<subseteq> set ''0123456789''"
proof -
  have "take 8 (strftime t) = pad4 (year t) @ pad2 (month t) @ pad2 (day t)"
    by (simp add: strftime_def pad2_def pad4_def)
  moreover have "drop 9 (strftime t) = pad2 (hour t) @ pad2 (minute t) @ pad2 (second t)"
    by (simp add: strftime_def pad2_def pad4_def)
  moreover have "set (pad2 n) \<subseteq> set ''0123456789''" for n
    using digit_in by (simp add: pad2_def)
  moreover have "set (pad4 n) \<subseteq> set ''0123456789''" for n
    using digit_in by (simp add: pad4_def)
  ultimately show ?thesis by (simp only: set_append Un_subset_iff)
qed

subsection \<open>Export: the loop over the layers\<close>

lemma write_file_fields:
  "files (write_file n c w) = (files w)(n \<mapsto> c)" "dirs (write_file n c w) = dirs w"
  "logs (write_file n c w) = logs w" "ticks (write_file n c w) = ticks w"
  by (simp_all add: write_file_def)

lemma log_to_fields:
  "files (log_to l msg w) = files w" "dirs (log_to l msg w) = dirs w"
  "logs (log_to l msg w) = logs w @ [(l, msg)]" "ticks (log_to l msg w) = ticks w"
  by (simp_all add: log_to_def)

lemma exported_not_skipped: "exported en ty l \<Longrightarrow> \<not> skipped en ty l"
  by (simp add: exported_def skipped_def split: option.splits)

lemma export_loop_exported:
  assumes "exported en ty l"
  shows "\<exists>p. l = Some p \<and>
         export_loop en nc d b ty ((h, l) # rest) fs w
           = export_loop en nc d b ty rest (dict_set fs h (layer_filename en d b ty h))
               (write_file (layer_filename en d b ty h) (VectorFile p ty) w)"
  using assms by (cases l) (simp_all add: exported_def path2D_export_def Let_def)

lemma export_loop_skipped:
  assumes "skipped en ty l"
  shows "export_loop en nc d b ty ((h, l) # rest) fs w
           = export_loop en nc d b ty rest fs
               (log_to DEBUG (layer_filename en d b ty h @ nc) w)"
  using assms by (cases l) (simp_all add: skipped_def path2D_export_def Let_def)

lemma export_loop_abort:
  assumes "path_export en p ty = Some e" and "e \<noteq> AttributeError"
  shows "export_loop en nc d b ty ((h, Some p) # rest) fs w = (Inl e, w)"
  using assms by (simp add: path2D_export_def Let_def)

lemma export_loop_cases:
  obtains (exported) p where "l = Some p" "path_export en p ty = None"
  | (skipped) "skipped en ty l"
  | (abort) p e where "l = Some p" "path_export en p ty = Some e" "e \<noteq> AttributeError"
  by (cases l; cases "path_export en (the l) ty") (auto simp: skipped_def)

lemma export_loop_dirs_ticks:
  "dirs (snd (export_loop en nc d b ty ls fs w)) = dirs w
   \<and> ticks (snd (export_loop en nc d b ty ls fs w)) = ticks w"
proof (induction ls arbitrary: fs w)
  case Nil
  show ?case by simp
next
  case (Cons x ls)
  obtain h l where x: "x = (h, l)" by (cases x)
  show ?case
  proof (cases rule: export_loop_cases [of l en ty])
    case (exported p)
    then have "exported en ty l" by (simp add: exported_def)
    from export_loop_exported [OF this, of nc d b h ls fs w] exported(1)
    show ?thesis unfolding x using Cons.IH by (simp add: write_file_fields)
  next
    case skipped
    show ?thesis unfolding x export_loop_skipped [OF skipped]
      using Cons.IH by (simp add: log_to_fields)
  next
    case (abort p e)
    show ?thesis unfolding x abort(1) export_loop_abort [OF abort(2,3)] by simp
  qed
qed

lemma export_loop_files_frame:
  assumes "f \<notin> layer_filename en d b ty ` fst ` set ls"
  shows "files (snd (export_loop en nc d b ty ls fs w)) f = files w f"
  using assms
proof (induction ls arbitrary: fs w)
  case Nil
  show ?case by simp
next
  case (Cons x ls)
  obtain h l where x: "x = (h, l)" by (cases x)
  have f: "f \<noteq> layer_filename en d b ty h" and rest: "f \<notin> layer_filename en d b ty ` fst ` set ls"
    using Cons.prems by (auto simp: x)
  show ?case
  proof (cases rule: export_loop_cases [of l en ty])
    case (exported p)
    then have "exported en ty l" by (simp add: exported_def)
    from export_loop_exported [OF this, of nc d b h ls fs w] exported(1)
    show ?thesis unfolding x using Cons.IH [OF rest] f by (simp add: write_file_fields)
  next
    case skipped
    show ?thesis unfolding x export_loop_skipped [OF skipped]
      using Cons.IH [OF rest] by (simp add: log_to_fields)
  next
    case (abort p e)
    show ?thesis unfolding x abort(1) export_loop_abort [OF abort(2,3)] by simp
  qed
qed

lemma layer_filename_prefix:
  "take (Suc (length d)) (layer_filename en d b ty h) = d @ ''/''"
  by (simp add: layer_filename_def)

lemma export_loop_files_outside:
  assumes "take (Suc (length d)) f \<noteq> d @ ''/''"
  shows "files (snd (export_loop en nc d b ty ls fs w)) f = files w f"
proof (rule export_loop_files_frame)
  show "f \<notin> layer_filename en d b ty ` fst ` set ls"
    using assms by (auto simp: layer_filename_prefix)
qed







subsection \<open>Export: a fresh directory\<close>


text \<open>What the directory branch of \<open>export_layers\<close> does once the directory exists.\<close>

lemma export_layers_with_dir:
  assumes "mesh s = Some m" and "ty = ''dxf'' \<or> ty = ''svg''"
    and "make_export_dir en (filename s) ty w = Some (Inr (d, w1))"
  shows "export_layers_with ix nc en s ty la w =
     (case export_loop en nc d (split_tail (filename s)) ty (layers_or la (layers s)) []
             (write_file (d @ ''/'' @ split_tail (filename s) @ ix) EmptyFile w1) of
        (Inl e, w3) \<Rightarrow> Some (Inl e, w3)
      | (Inr fs, w3) \<Rightarrow>
          Some (Inr True,
                log_to DEBUG (''Export to '' @ d @ '' finished.'')
                  (write_file (d @ ''/'' @ split_tail (filename s) @ ix)
                     (JsonIndex (full_filename s) (units m) (mesh_watertight s) fs) w3)))"
  using assms by (auto simp: export_layers_with_def Let_def split: prod.splits sum.splits)

lemma export_layers_with_dir_None:
  assumes "mesh s = Some m" and "ty = ''dxf'' \<or> ty = ''svg''"
  shows "export_layers_with ix nc en s ty la w = None
           \<longleftrightarrow> make_export_dir en (filename s) ty w = None"
proof (cases "make_export_dir en (filename s) ty w")
  case None
  then show ?thesis using assms by (auto simp: export_layers_with_def Let_def)
next
  case (Some r)
  from make_export_dir_result [OF Some] obtain d w1 where r: "r = Inr (d, w1)" by blast
  have "export_layers_with ix nc en s ty la w \<noteq> None"
    unfolding export_layers_with_dir [OF assms Some [unfolded r]]
    by (simp split: prod.splits sum.splits)
  with Some show ?thesis by simp
qed


lemma index_name_prefix: "take (Suc (length d)) (d @ ''/'' @ rest) = d @ ''/''"
  by simp

text \<open>The world after the directory branch, whatever the loop over the layers did.\<close>

lemma export_layers_with_dir_world:
  assumes "mesh s = Some m" and "ty = ''dxf'' \<or> ty = ''svg''"
    and mk: "make_export_dir en (filename s) ty w = Some (Inr (d, w1))"
    and some: "export_layers_with ix nc en s ty la w = Some (res, w')"
  shows "dirs w' = dirs w1 \<and> ticks w' = ticks w1
         \<and> (\<forall>f. take (Suc (length d)) f \<noteq> d @ ''/'' \<longrightarrow> files w' f = files w1 f)"
proof -
  define index where "index = d @ ''/'' @ split_tail (filename s) @ ix"
  define E where "E = export_loop en nc d (split_tail (filename s)) ty (layers_or la (layers s)) []
             (write_file index EmptyFile w1)"
  have run: "Some (res, w') =
     (case E of
        (Inl e, w3) \<Rightarrow> Some (Inl e, w3)
      | (Inr fs, w3) \<Rightarrow>
          Some (Inr True,
                log_to DEBUG (''Export to '' @ d @ '' finished.'')
                  (write_file index (JsonIndex (full_filename s) (units m) (mesh_watertight s) fs) w3)))"
    unfolding E_def index_def some [symmetric] by (rule export_layers_with_dir [OF assms(1,2) mk])
  have dE: "dirs (snd E) = dirs w1" and tE: "ticks (snd E) = ticks w1"
    by (simp_all add: E_def export_loop_dirs_ticks write_file_fields)
  have fE: "files (snd E) f = files w1 f" if "take (Suc (length d)) f \<noteq> d @ ''/''" for f
  proof -
    have "f \<noteq> index" using that by (auto simp: index_def)
    then show ?thesis by (simp add: E_def export_loop_files_outside [OF that] write_file_fields)
  qed
  have w': "w' = snd E \<or> (\<exists>fs. w' = log_to DEBUG (''Export to '' @ d @ '' finished.'')
                  (write_file index (JsonIndex (full_filename s) (units m) (mesh_watertight s) fs) (snd E)))"
  proof -
    obtain r3 w3 where E: "E = (r3, w3)" by (cases E)
    show ?thesis
    proof (cases r3)
      case (Inl e)
      have "Some (res, w') = Some (Inl e, w3)"
        using run unfolding E Inl by (simp only: prod.case sum.case)
      then have "w' = w3" by simp
      then show ?thesis by (simp add: E)
    next
      case (Inr fs)
      have "Some (res, w') = Some (Inr True,
                log_to DEBUG (''Export to '' @ d @ '' finished.'')
                  (write_file index (JsonIndex (full_filename s) (units m) (mesh_watertight s) fs) w3))"
        using run unfolding E Inr by (simp only: prod.case sum.case)
      then have "w' = log_to DEBUG (''Export to '' @ d @ '' finished.'')
                  (write_file index (JsonIndex (full_filename s) (units m) (mesh_watertight s) fs) (snd E))"
        by (simp only: option.inject prod.inject E snd_conv)
      then show ?thesis by blast
    qed
  qed
  show ?thesis
  proof (intro conjI allI impI)
    from w' show "dirs w' = dirs w1"
    proof (elim disjE exE)
      assume "w' = snd E"
      then show ?thesis by (simp only: dE)
    next
      fix fs
      assume "w' = log_to DEBUG (''Export to '' @ d @ '' finished.'')
                  (write_file index (JsonIndex (full_filename s) (units m) (mesh_watertight s) fs) (snd E))"
      then show ?thesis by (simp only: log_to_fields write_file_fields dE)
    qed
    from w' show "ticks w' = ticks w1"
    proof (elim disjE exE)
      assume "w' = snd E"
      then show ?thesis by (simp only: tE)
    next
      fix fs
      assume "w' = log_to DEBUG (''Export to '' @ d @ '' finished.'')
                  (write_file index (JsonIndex (full_filename s) (units m) (mesh_watertight s) fs) (snd E))"
      then show ?thesis by (simp only: log_to_fields write_file_fields tE)
    qed
    fix f assume f: "take (Suc (length d)) f \<noteq> d @ ''/''"
    then have ne: "f \<noteq> index" by (auto simp: index_def)
    from w' show "files w' f = files w1 f"
    proof (elim disjE exE)
      assume "w' = snd E"
      then show ?thesis by (simp only: fE [OF f])
    next
      fix fs
      assume "w' = log_to DEBUG (''Export to '' @ d @ '' finished.'')
                  (write_file index (JsonIndex (full_filename s) (units m) (mesh_watertight s) fs) (snd E))"
      then show ?thesis using ne by (simp add: log_to_fields write_file_fields fE [OF f])
    qed
  qed
qed

text \<open>
  C7.  Directory export (formats dxf and svg, mesh loaded).  The call fails to return
  exactly when the name of every reading of the clock exists already.  When it returns,
  the directory is named \<open>stem_format_stamp\<close> with \<open>stamp\<close> the reading \<open>k\<close> of the clock as
  eight digits, a dash and six digits; that name did not exist before (neither as a
  directory nor as a file) while the names of all earlier readings did, which were tried
  and given up; the directory is the one directory created; and every file that was
  written or changed lies in it.
\<close>

theorem export_layers_fresh_directory:
  assumes "mesh s = Some m" and "exp_type = ''dxf'' \<or> exp_type = ''svg''"
  shows "(export_layers en s exp_type la w = None
            \<longleftrightarrow> (\<forall>k\<ge>ticks w. path_exists w (dir_name_of (filename s) exp_type (strftime (now en k)))))
     \<and> (\<forall>res w'. export_layers en s exp_type la w = Some (res, w') \<longrightarrow>
          (\<exists>k stamp d. ticks w \<le> k \<and> stamp = strftime (now en k)
             \<and> d = filename s @ ''_'' @ exp_type @ ''_'' @ stamp
             \<and> length stamp = 15 \<and> stamp ! 8 = CHR ''-''
             \<and> set (take 8 stamp) \<union> set (drop 9 stamp) \<subseteq> set ''0123456789''
             \<and> \<not> path_exists w d
             \<and> (\<forall>i. ticks w \<le> i \<and> i < k
                    \<longrightarrow> path_exists w (dir_name_of (filename s) exp_type (strftime (now en i))))
             \<and> dirs w' = insert d (dirs w) \<and> ticks w' = Suc k
             \<and> (\<forall>f. files w' f \<noteq> files w f \<longrightarrow> take (Suc (length d)) f = d @ ''/'')))"
proof (intro conjI allI impI)
  show "export_layers en s exp_type la w = None
          \<longleftrightarrow> (\<forall>k\<ge>ticks w. path_exists w (dir_name_of (filename s) exp_type (strftime (now en k))))"
    unfolding export_layers_def export_layers_with_dir_None [OF assms]
    by (rule make_export_dir_None)
next
  fix res w'
  assume some: "export_layers en s exp_type la w = Some (res, w')"
  have "make_export_dir en (filename s) exp_type w \<noteq> None"
  proof
    assume "make_export_dir en (filename s) exp_type w = None"
    then have "export_layers en s exp_type la w = None"
      unfolding export_layers_def export_layers_with_dir_None [OF assms] .
    then show False unfolding some by simp
  qed
  then obtain r where r: "make_export_dir en (filename s) exp_type w = Some r" by blast
  from make_export_dir_result [OF r] obtain k where k:
    "ticks w \<le> k
     \<and> r = Inr (dir_name_of (filename s) exp_type (strftime (now en k)),
               w\<lparr>ticks := Suc k, dirs := insert (dir_name_of (filename s) exp_type (strftime (now en k))) (dirs w)\<rparr>)
     \<and> \<not> path_exists w (dir_name_of (filename s) exp_type (strftime (now en k)))
     \<and> (\<forall>i. ticks w \<le> i \<and> i < k \<longrightarrow> path_exists w (dir_name_of (filename s) exp_type (strftime (now en i))))" ..
  define d where "d = dir_name_of (filename s) exp_type (strftime (now en k))"
  define w1 where "w1 = w\<lparr>ticks := Suc k, dirs := insert d (dirs w)\<rparr>"
  have mk: "make_export_dir en (filename s) exp_type w = Some (Inr (d, w1))"
    unfolding r d_def w1_def using k by simp
  have world: "dirs w' = dirs w1 \<and> ticks w' = ticks w1
         \<and> (\<forall>f. take (Suc (length d)) f \<noteq> d @ ''/'' \<longrightarrow> files w' f = files w1 f)"
    by (rule export_layers_with_dir_world [OF assms mk some [unfolded export_layers_def]])
  have "ticks w \<le> k \<and> strftime (now en k) = strftime (now en k)
          \<and> d = filename s @ ''_'' @ exp_type @ ''_'' @ strftime (now en k)
          \<and> length (strftime (now en k)) = 15 \<and> strftime (now en k) ! 8 = CHR ''-''
          \<and> set (take 8 (strftime (now en k))) \<union> set (drop 9 (strftime (now en k))) \<subseteq> set ''0123456789''
          \<and> \<not> path_exists w d
          \<and> (\<forall>i. ticks w \<le> i \<and> i < k
                 \<longrightarrow> path_exists w (dir_name_of (filename s) exp_type (strftime (now en i))))
          \<and> dirs w' = insert d (dirs w) \<and> ticks w' = Suc k
          \<and> (\<forall>f. files w' f \<noteq> files w f \<longrightarrow> take (Suc (length d)) f = d @ ''/'')"
  proof (intro conjI)
    show "ticks w \<le> k" using k by simp
    show "strftime (now en k) = strftime (now en k)" by (rule refl)
    show "d = filename s @ ''_'' @ exp_type @ ''_'' @ strftime (now en k)"
      by (simp add: d_def dir_name_of_def)
    show "length (strftime (now en k)) = 15" by (rule strftime_length)
    show "strftime (now en k) ! 8 = CHR ''-''" by (rule strftime_dash)
    show "set (take 8 (strftime (now en k))) \<union> set (drop 9 (strftime (now en k))) \<subseteq> set ''0123456789''"
      by (rule strftime_digits)
    show "\<not> path_exists w d" using k by (simp add: d_def)
    show "\<forall>i. ticks w \<le> i \<and> i < k
            \<longrightarrow> path_exists w (dir_name_of (filename s) exp_type (strftime (now en i)))"
      using k by simp
    show "dirs w' = insert d (dirs w)" using world by (simp add: w1_def)
    show "ticks w' = Suc k" using world by (simp add: w1_def)
    show "\<forall>f. files w' f \<noteq> files w f \<longrightarrow> take (Suc (length d)) f = d @ ''/''"
      using world by (auto simp: w1_def)
  qed
  then show "\<exists>k stamp d. ticks w \<le> k \<and> stamp = strftime (now en k)
             \<and> d = filename s @ ''_'' @ exp_type @ ''_'' @ stamp
             \<and> length stamp = 15 \<and> stamp ! 8 = CHR ''-''
             \<and> set (take 8 stamp) \<union> set (drop 9 stamp) \<subseteq> set ''0123456789''
             \<and> \<not> path_exists w d
             \<and> (\<forall>i. ticks w \<le> i \<and> i < k
                    \<longrightarrow> path_exists w (dir_name_of (filename s) exp_type (strftime (now en i))))
             \<and> dirs w' = insert d (dirs w) \<and> ticks w' = Suc k
             \<and> (\<forall>f. files w' f \<noteq> files w f \<longrightarrow> take (Suc (length d)) f = d @ ''/'')"
    by (intro exI [of _ k] exI [of _ "strftime (now en k)"] exI [of _ d])
qed

text \<open>The example: the first two readings of the clock give a name that exists, the third a fresh one.\<close>

lemma example_names:
  "now en = now example_env \<Longrightarrow>
     dir_name_of ''res/cube'' ''dxf'' (strftime (now en 0)) = ''res/cube_dxf_20240102-030405''"
  "now en = now example_env \<Longrightarrow>
     dir_name_of ''res/cube'' ''dxf'' (strftime (now en (Suc 0))) = ''res/cube_dxf_20240102-030405''"
  "now en = now example_env \<Longrightarrow>
     dir_name_of ''res/cube'' ''dxf'' (strftime (now en 2)) = ''res/cube_dxf_20240102-030406''"
  by (simp_all add: dir_name_of_def strftime_def example_env_def pad2_def pad4_def digit_def)

lemma example_path_exists:
  "path_exists example_world ''res/cube_dxf_20240102-030405''"
  "\<not> path_exists example_world ''res/cube_dxf_20240102-030406''"
  by (simp_all add: path_exists_def example_world_def)



theorem export_layers_fresh_directory_witness:
  "export_layers example_env example_sliced ''dxf'' None example_world \<noteq> None
   \<and> (\<exists>res w'. export_layers example_env example_sliced ''dxf'' None example_world = Some (res, w')
          \<and> dirs w' = insert ''res/cube_dxf_20240102-030406'' (dirs example_world)
          \<and> ticks w' = 3)"
proof -
  have m: "mesh example_sliced = Some example_mesh"
    by (simp add: example_sliced_def example_session_def)
  have fn: "filename example_sliced = ''res/cube''"
    by (simp add: example_sliced_def example_session_def)
  have t0: "ticks example_world = 0" by (simp add: example_world_def)
  have ty: "''dxf'' = ''dxf'' \<or> ''dxf'' = ''svg''" by simp
  note inst = export_layers_fresh_directory [OF m ty, of example_env None example_world]
  have fresh2: "\<not> path_exists example_world
                   (dir_name_of (filename example_sliced) ''dxf'' (strftime (now example_env 2)))"
    unfolding fn by (simp only: example_names [OF refl] example_path_exists not_False_eq_True)
  have notnone: "export_layers example_env example_sliced ''dxf'' None example_world \<noteq> None"
  proof
    assume "export_layers example_env example_sliced ''dxf'' None example_world = None"
    then have "\<forall>k\<ge>ticks example_world. path_exists example_world
                 (dir_name_of (filename example_sliced) ''dxf'' (strftime (now example_env k)))"
      using inst [THEN conjunct1] by (rule iffD1 [rotated])
    then have "path_exists example_world
                 (dir_name_of (filename example_sliced) ''dxf'' (strftime (now example_env 2)))"
      by (simp add: t0)
    with fresh2 show False by simp
  qed
  then obtain res w' where some:
    "export_layers example_env example_sliced ''dxf'' None example_world = Some (res, w')"
    by (cases "export_layers example_env example_sliced ''dxf'' None example_world") auto
  from inst [THEN conjunct2, THEN spec, THEN spec, THEN mp, OF some]
  obtain k stamp d where k: "ticks example_world \<le> k" and st: "stamp = strftime (now example_env k)"
    and d: "d = filename example_sliced @ ''_'' @ ''dxf'' @ ''_'' @ stamp"
    and fr: "\<not> path_exists example_world d"
    and ear: "\<forall>i. ticks example_world \<le> i \<and> i < k
                 \<longrightarrow> path_exists example_world (dir_name_of (filename example_sliced) ''dxf'' (strftime (now example_env i)))"
    and dw: "dirs w' = insert d (dirs example_world)" and tw: "ticks w' = Suc k"
    by blast
  have dk: "d = dir_name_of ''res/cube'' ''dxf'' (strftime (now example_env k))"
    unfolding d st fn by (simp add: dir_name_of_def)
  have "k \<noteq> 0"
  proof
    assume k0: "k = 0"
    have "path_exists example_world (dir_name_of ''res/cube'' ''dxf'' (strftime (now example_env k)))"
      unfolding k0 by (simp only: example_names [OF refl] example_path_exists)
    with fr dk show False by simp
  qed
  moreover have "k \<noteq> Suc 0"
  proof
    assume k1: "k = Suc 0"
    have "path_exists example_world (dir_name_of ''res/cube'' ''dxf'' (strftime (now example_env k)))"
      unfolding k1 by (simp only: example_names [OF refl] example_path_exists)
    with fr dk show False by simp
  qed
  moreover have "\<not> 2 < k"
  proof
    assume "2 < k"
    then have "path_exists example_world (dir_name_of (filename example_sliced) ''dxf'' (strftime (now example_env 2)))"
      using ear by (simp add: t0)
    with fresh2 show False by simp
  qed
  ultimately have k2: "k = 2" by arith
  have d2: "d = ''res/cube_dxf_20240102-030406''"
    unfolding dk k2 by (rule example_names [OF refl])
  have "export_layers example_env example_sliced ''dxf'' None example_world = Some (res, w')
          \<and> dirs w' = insert ''res/cube_dxf_20240102-030406'' (dirs example_world)
          \<and> ticks w' = 3"
    using some dw tw unfolding d2 k2 by (intro conjI) simp_all
  then have "\<exists>res w'. export_layers example_env example_sliced ''dxf'' None example_world = Some (res, w')
          \<and> dirs w' = insert ''res/cube_dxf_20240102-030406'' (dirs example_world)
          \<and> ticks w' = 3"
    by (intro exI)
  with notnone show ?thesis by (rule conjI)
qed

subsection \<open>Export: the layers and the index\<close>














end
